theory Spec2Isabelle
  imports Main
begin

section \<open>Python values and exceptions\<close>

text \<open>
  The exceptions of \<^verbatim>\<open>kivy/uix/settings.py\<close>, named after the raise site:
  \<^item> \<open>InvalidInputError\<close>: \<^verbatim>\<open>Exception('You must specify either the filename or data')\<close>;
  \<^item> \<open>SchemaFormatError\<close>: \<^verbatim>\<open>ValueError('The first element must be a list')\<close> and
    \<^verbatim>\<open>ValueError('One setting are missing the "type" element')\<close>;
  \<^item> \<open>UnknownTypeError\<close>: \<^verbatim>\<open>ValueError('No class registered to handle the <%s> type')\<close>;
  \<^item> \<open>ConfigBindingError\<close>: \<^verbatim>\<open>Exception('Invalid config object, ...')\<close>;
  \<^item> \<open>CapacityError\<close>: \<^verbatim>\<open>Exception('ContentNoMenu cannot accept more than one settings panel')\<close>.
  The others are the exceptions of the interpreter and of the libraries the module calls.
\<close>

datatype error =
    InvalidInputError
  | SchemaFormatError
  | UnknownTypeError
  | ConfigBindingError
  | CapacityError
  | JSONDecodeError
  | IOError
  | TypeError
  | AttributeError
  | KeyError
  | PropertyValueError
  | NoSectionError
  | NoOptionError
  | WidgetException
  | ScrollViewException


text \<open>
  The objects held by the \<^verbatim>\<open>value\<close> property of a setting: \<^verbatim>\<open>None\<close> (the default), a string
  (what the store returns and what every editor assigns) or an integer.
\<close>

datatype pyval = VNone | VStr string | VInt int

subsection \<open>\<^verbatim>\<open>str\<close> of an integer\<close>

function str_nat :: "nat \<Rightarrow> string" where
  "str_nat n =
     (if n < 10 then [''0123456789'' ! n]
      else str_nat (n div 10) @ [''0123456789'' ! (n mod 10)])"
  by pat_completeness auto
termination
  by (relation "measure id") auto

declare str_nat.simps [simp del]

definition str_int :: "int \<Rightarrow> string" where
  "str_int i = (if i < 0 then CHR ''-'' # str_nat (nat (- i)) else str_nat (nat i))"

fun py_str :: "pyval \<Rightarrow> string" where
  "py_str VNone = ''None''"
| "py_str (VStr s) = s"
| "py_str (VInt i) = str_int i"

section \<open>The configuration store\<close>

text \<open>
  Modelled from the spec: the ConfigStore (\<^verbatim>\<open>kivy.config.ConfigParser\<close>, which the module
  imports and does not define), a section/key string-value store with \<^verbatim>\<open>get(section, key)\<close>,
  \<^verbatim>\<open>set(section, key, value)\<close> and \<^verbatim>\<open>write()\<close>. A read of a section or key that has no
  value raises, as the parser does. The arguments are optional strings because the module
  passes the \<^verbatim>\<open>section\<close> and \<^verbatim>\<open>key\<close> properties, whose default is \<^verbatim>\<open>None\<close>.
\<close>

type_synonym store = "string \<Rightarrow> (string \<Rightarrow> string option) option"

definition cfg_get :: "store \<Rightarrow> string option \<Rightarrow> string option \<Rightarrow> error + string" where
  "cfg_get st sec k =
     (case sec of
        None \<Rightarrow> Inl NoSectionError
      | Some s \<Rightarrow>
          (case st s of
             None \<Rightarrow> Inl NoSectionError
           | Some m \<Rightarrow>
               (case k of
                  None \<Rightarrow> Inl AttributeError
                | Some k' \<Rightarrow>
                    (case m k' of None \<Rightarrow> Inl NoOptionError | Some v \<Rightarrow> Inr v))))"

definition cfg_set :: "store \<Rightarrow> string option \<Rightarrow> string option \<Rightarrow> string \<Rightarrow> error + store" where
  "cfg_set st sec k v =
     (case sec of
        None \<Rightarrow> Inl NoSectionError
      | Some s \<Rightarrow>
          (case st s of
             None \<Rightarrow> Inl NoSectionError
           | Some m \<Rightarrow>
               (case k of
                  None \<Rightarrow> Inl AttributeError
                | Some k' \<Rightarrow> Inr (st(s \<mapsto> m(k' \<mapsto> v))))))"

text \<open>
  Every call the module makes on a store or on its \<^verbatim>\<open>Settings\<close> widget is recorded, in
  order. Stores and \<^verbatim>\<open>Settings\<close> widgets are objects: they are named by a reference.
\<close>

datatype event =
    Get nat "string option" "string option"
  | Set nat "string option" "string option" string
  | Write nat
  | ConfigChange nat "nat option" "string option" "string option" string

record world =
  stores :: "nat \<Rightarrow> store"
  disk :: "nat \<Rightarrow> store"
  trace :: "event list"

definition log :: "event \<Rightarrow> world \<Rightarrow> world" where
  "log ev w = w\<lparr>trace := trace w @ [ev]\<rparr>"

section \<open>SettingsPanel: reading and writing values\<close>

text \<open>
  The two properties of a \<^verbatim>\<open>SettingsPanel\<close> that its settings use: \<^verbatim>\<open>config\<close>
  (\<^verbatim>\<open>ObjectProperty(None, allownone=True)\<close>) and \<^verbatim>\<open>settings\<close> (\<^verbatim>\<open>ObjectProperty(None)\<close>).
\<close>

record pinfo =
  config :: "nat option"
  settings :: "nat option"

text \<open>\<^verbatim>\<open>SettingsPanel.get_value\<close>: \<^verbatim>\<open>None\<close> without a store, else \<^verbatim>\<open>config.get(section, key)\<close>.\<close>

definition get_value ::
  "pinfo \<Rightarrow> string option \<Rightarrow> string option \<Rightarrow> world \<Rightarrow> (error + string option) \<times> world" where
  "get_value p sec k w =
     (case config p of
        None \<Rightarrow> (Inr None, w)
      | Some c \<Rightarrow>
          (case cfg_get (stores w c) sec k of
             Inl e \<Rightarrow> (Inl e, log (Get c sec k) w)
           | Inr v \<Rightarrow> (Inr (Some v), log (Get c sec k) w)))"

text \<open>The two calls \<^verbatim>\<open>config.set(section, key, value); config.write()\<close>.\<close>

definition set_and_write ::
  "nat \<Rightarrow> string option \<Rightarrow> string option \<Rightarrow> string \<Rightarrow> world \<Rightarrow> error option \<times> world" where
  "set_and_write c sec k v w =
     (case cfg_set (stores w c) sec k v of
        Inl e \<Rightarrow> (Some e, log (Set c sec k v) w)
      | Inr st \<Rightarrow>
          (None, log (Write c)
             ((log (Set c sec k v) w)\<lparr>stores := (stores w)(c := st), disk := (disk w)(c := st)\<rparr>)))"

text \<open>
  \<^verbatim>\<open>SettingsPanel.set_value\<close>. The value is a string: the one caller in the module,
  \<^verbatim>\<open>SettingItem.on_value\<close>, passes the result of \<^verbatim>\<open>str\<close>.
\<close>

definition set_value ::
  "pinfo \<Rightarrow> string option \<Rightarrow> string option \<Rightarrow> string \<Rightarrow> world \<Rightarrow> error option \<times> world" where
  "set_value p sec k v w =
     (case get_value p sec k w of
        (Inl e, w1) \<Rightarrow> (Some e, w1)
      | (Inr current, w1) \<Rightarrow>
          if current = Some v then (None, w1)
          else
            (case (case config p of
                     None \<Rightarrow> (None, w1)
                   | Some c \<Rightarrow> set_and_write c sec k v w1) of
               (Some e, w2) \<Rightarrow> (Some e, w2)
             | (None, w2) \<Rightarrow>
                 (case settings p of
                    None \<Rightarrow> (None, w2)
                  | Some st \<Rightarrow> (None, log (ConfigChange st (config p) sec k v) w2))))"

section \<open>SettingItem\<close>

datatype setting_class =
  SettingString | SettingBoolean | SettingNumeric | SettingOptions | SettingTitle | SettingPath

record entry =
  cls :: setting_class
  title :: string
  desc :: "string option"
  disabled :: bool
  sect :: "string option"
  key :: "string option"
  val :: pyval
  panel :: "pinfo option"
  values_pair :: "string list"
  options :: "string list"

text \<open>Python's truth value of a string property: \<^verbatim>\<open>None\<close> and the empty string are false.\<close>

definition truthy :: "string option \<Rightarrow> bool" where
  "truthy s = (s \<noteq> None \<and> s \<noteq> Some [])"

text \<open>
  \<^verbatim>\<open>SettingItem.on_value\<close>: nothing for a setting without section or key; otherwise the value,
  coerced by \<^verbatim>\<open>str\<close> unless it is a string, goes to \<^verbatim>\<open>panel.set_value\<close>.
\<close>

definition coerce :: "pyval \<Rightarrow> string" where
  "coerce v = (case v of VStr s \<Rightarrow> s | _ \<Rightarrow> py_str v)"

definition on_value :: "entry \<Rightarrow> pyval \<Rightarrow> world \<Rightarrow> error option \<times> world" where
  "on_value e v w =
     (if \<not> truthy (sect e) \<or> \<not> truthy (key e) then (None, w)
      else
        (case panel e of
           None \<Rightarrow> (Some AttributeError, w)
         | Some p \<Rightarrow> set_value p (sect e) (key e) (coerce v) w))"

text \<open>
  Modelled from the spec: the observable property \<^verbatim>\<open>value\<close> (\<^verbatim>\<open>kivy.properties\<close>, not part of
  the module). "Whenever the entry's value changes", the handler \<^verbatim>\<open>on_value\<close> runs with the
  new value; an assignment of the value the property already holds changes nothing and
  runs nothing.
\<close>

definition assign_value :: "entry \<Rightarrow> pyval \<Rightarrow> world \<Rightarrow> error option \<times> entry \<times> world" where
  "assign_value e v w =
     (if val e = v then (None, e, w)
      else
        (case on_value (e\<lparr>val := v\<rparr>) v w of
           (r, w') \<Rightarrow> (r, e\<lparr>val := v\<rparr>, w')))"

section \<open>SettingNumeric: validation of an edit\<close>


section \<open>ContentPanel and ContentNoMenu\<close>

text \<open>
  Modelled from the spec: the widget tree (\<^verbatim>\<open>kivy.uix.widget\<close> and \<^verbatim>\<open>kivy.uix.scrollview\<close>,
  not part of the module), as far as "attach" and "detach" need it. Widgets are named by
  their uid. A widget receives a child at the front of its children and refuses one it
  already has; removing a widget that is not a child does nothing; a scroll view takes
  one child only.
\<close>

definition widget_add :: "nat list \<Rightarrow> nat \<Rightarrow> error + nat list" where
  "widget_add ch wd = (if wd \<in> set ch then Inl WidgetException else Inr (wd # ch))"

definition widget_remove :: "nat list \<Rightarrow> nat \<Rightarrow> nat list" where
  "widget_remove ch wd = removeAll wd ch"

definition scrollview_add :: "nat list \<Rightarrow> nat \<Rightarrow> error + nat list" where
  "scrollview_add ch wd = (if ch \<noteq> [] then Inl ScrollViewException else widget_add ch wd)"

text \<open>
  A \<^verbatim>\<open>ContentPanel\<close>: the properties \<^verbatim>\<open>panels\<close>, \<^verbatim>\<open>container\<close> (the children of the container
  widget, \<open>None\<close> while the property is \<^verbatim>\<open>None\<close>), \<^verbatim>\<open>current_panel\<close> and \<^verbatim>\<open>current_panel_uid\<close>,
  the children of the scroll view itself, and whether the object is a \<^verbatim>\<open>ContentNoMenu\<close>.
\<close>

record content =
  nomenu :: bool
  panels :: "nat \<Rightarrow> nat option"
  container :: "nat list option"
  viewport :: "nat list"
  current_panel :: "nat option"
  current_panel_uid :: nat

definition ContentPanel_add_widget :: "content \<Rightarrow> nat \<Rightarrow> error option \<times> content" where
  "ContentPanel_add_widget c wd =
     (case container c of
        None \<Rightarrow>
          (case scrollview_add (viewport c) wd of
             Inl e \<Rightarrow> (Some e, c)
           | Inr v \<Rightarrow> (None, c\<lparr>viewport := v\<rparr>))
      | Some ch \<Rightarrow>
          (case widget_add ch wd of
             Inl e \<Rightarrow> (Some e, c)
           | Inr ch' \<Rightarrow> (None, c\<lparr>container := Some ch'\<rparr>)))"

text \<open>\<^verbatim>\<open>add_widget\<close>, with the override of \<^verbatim>\<open>ContentNoMenu\<close>.\<close>

definition add_widget :: "content \<Rightarrow> nat \<Rightarrow> error option \<times> content" where
  "add_widget c wd =
     (if nomenu c \<and> (case container c of None \<Rightarrow> False | Some ch \<Rightarrow> length ch > 0)
      then (Some CapacityError, c)
      else ContentPanel_add_widget c wd)"

definition remove_widget :: "content \<Rightarrow> nat \<Rightarrow> error option \<times> content" where
  "remove_widget c wd =
     (case container c of
        None \<Rightarrow> (Some AttributeError, c)
      | Some ch \<Rightarrow> (None, c\<lparr>container := Some (widget_remove ch wd)\<rparr>))"

definition switch_to_panel :: "content \<Rightarrow> nat \<Rightarrow> (error + bool) \<times> content" where
  "switch_to_panel c uid =
     (case panels c uid of
        None \<Rightarrow> (Inr False, c)
      | Some new_panel \<Rightarrow>
          (case (case current_panel c of
                   None \<Rightarrow> (None, c)
                 | Some cur \<Rightarrow> remove_widget c cur) of
             (Some e, c1) \<Rightarrow> (Inl e, c1)
           | (None, c1) \<Rightarrow>
               (case add_widget c1 new_panel of
                  (Some e, c2) \<Rightarrow> (Inl e, c2)
                | (None, c2) \<Rightarrow>
                    (Inr True, c2\<lparr>current_panel_uid := uid, current_panel := Some new_panel\<rparr>))))"

definition add_panel :: "content \<Rightarrow> nat \<Rightarrow> string \<Rightarrow> nat \<Rightarrow> error option \<times> content" where
  "add_panel c pnl name uid =
     (let c1 = c\<lparr>panels := (panels c)(uid \<mapsto> pnl)\<rparr> in
      if current_panel_uid c1 = 0 then
        (case switch_to_panel c1 uid of
           (Inl e, c2) \<Rightarrow> (Some e, c2)
         | (Inr _, c2) \<Rightarrow> (None, c2))
      else (None, c1))"

section \<open>Settings: the registry of types and the JSON loader\<close>

text \<open>
  What \<^verbatim>\<open>json.loads\<close> returns: \<^verbatim>\<open>None\<close>, booleans, integers, strings, lists and
  dictionaries with string keys, a dictionary as the list of its items.
\<close>

datatype json =
  JNull | JBool bool | JNum int | JStr string | JArr "json list" | JObj "(string \<times> json) list"

type_synonym kwargs = "(string \<times> json) list"

text \<open>
  A registered class, called as \<^verbatim>\<open>cls(panel=panel, **str_settings)\<close>: it receives the panel
  and the keyword arguments, may call the store, and returns the new widget or raises.
\<close>

type_synonym ctor = "pinfo \<Rightarrow> kwargs \<Rightarrow> world \<Rightarrow> (error + entry) \<times> world"

type_synonym registry = "string \<Rightarrow> ctor option"

definition register_type :: "registry \<Rightarrow> string \<Rightarrow> ctor \<Rightarrow> registry" where
  "register_type types tp c = types(tp \<mapsto> c)"

text \<open>
  A \<^verbatim>\<open>SettingsPanel\<close>: its title, its \<^verbatim>\<open>config\<close> and \<^verbatim>\<open>settings\<close>, and the widgets added to
  it.

  Modelled from the spec: \<^verbatim>\<open>panel.add_widget(instance)\<close> (the layout of \<^verbatim>\<open>kivy.uix\<close>, not
  part of the module) "appends the constructed entry to the panel": \<open>entries\<close> is the
  sequence of the widgets in the order of the calls, which is the order in which the
  layout displays them.
\<close>

record settings_panel =
  panel_title :: string
  info :: pinfo
  entries :: "entry list"

text \<open>
  The argument \<^verbatim>\<open>config\<close> of the loader: \<^verbatim>\<open>None\<close>, a \<^verbatim>\<open>kivy.config.ConfigParser\<close>, or an object
  of another class, which \<^verbatim>\<open>SettingsPanel.on_config\<close> refuses.
\<close>

datatype config_arg = NoConfig | KivyConfig nat | ForeignConfig

definition SettingsPanel_init :: "string \<Rightarrow> nat option \<Rightarrow> config_arg \<Rightarrow> error + settings_panel" where
  "SettingsPanel_init ttl st cfg =
     (case cfg of
        NoConfig \<Rightarrow>
          Inr \<lparr>panel_title = ttl, info = \<lparr>config = None, settings = st\<rparr>, entries = []\<rparr>
      | KivyConfig c \<Rightarrow>
          Inr \<lparr>panel_title = ttl, info = \<lparr>config = Some c, settings = st\<rparr>, entries = []\<rparr>
      | ForeignConfig \<Rightarrow> Inl ConfigBindingError)"

fun starts_with :: "'a list \<Rightarrow> 'a list \<Rightarrow> bool" where
  "starts_with [] ys = True"
| "starts_with (x # xs) [] = False"
| "starts_with (x # xs) (y # ys) = (x = y \<and> starts_with xs ys)"

fun contains :: "'a list \<Rightarrow> 'a list \<Rightarrow> bool" where
  "contains xs [] = (xs = [])"
| "contains xs (y # ys) = (starts_with xs (y # ys) \<or> contains xs ys)"

text \<open>
  \<^verbatim>\<open>if not 'type' in setting: raise ValueError(...)\<close> and \<^verbatim>\<open>ttype = setting['type']\<close>, for
  every kind of element the list may hold: on a string \<^verbatim>\<open>in\<close> is the substring test and
  on a list the membership test, and both refuse the index \<^verbatim>\<open>'type'\<close>; the other values
  are not containers.
\<close>

fun setting_type :: "json \<Rightarrow> error + json" where
  "setting_type (JObj kvs) =
     (case map_of kvs ''type'' of None \<Rightarrow> Inl SchemaFormatError | Some t \<Rightarrow> Inr t)"
| "setting_type (JStr s) = (if contains ''type'' s then Inl TypeError else Inl SchemaFormatError)"
| "setting_type (JArr xs) = (if JStr ''type'' \<in> set xs then Inl TypeError else Inl SchemaFormatError)"
| "setting_type _ = Inl TypeError"

text \<open>
  \<^verbatim>\<open>self._types.get(ttype)\<close>: the registry has string keys; a list or a dictionary cannot
  be looked up at all.
\<close>

fun types_get :: "registry \<Rightarrow> json \<Rightarrow> error + ctor option" where
  "types_get types (JStr t) = Inr (types t)"
| "types_get types (JArr xs) = Inl TypeError"
| "types_get types (JObj kvs) = Inl TypeError"
| "types_get types _ = Inr None"

text \<open>\<^verbatim>\<open>del setting['type']\<close> and the copy into \<^verbatim>\<open>str_settings\<close>.\<close>

definition str_settings :: "json \<Rightarrow> kwargs" where
  "str_settings r = (case r of JObj kvs \<Rightarrow> filter (\<lambda>(k, _). k \<noteq> ''type'') kvs | _ \<Rightarrow> [])"

text \<open>
  One turn of the loop up to the call of the class: the class found for the record, or the
  error raised. A record with its own \<^verbatim>\<open>panel\<close> key gives the keyword argument twice.
\<close>

definition setting_class_of :: "registry \<Rightarrow> json \<Rightarrow> error + ctor" where
  "setting_class_of types r =
     (case setting_type r of
        Inl e \<Rightarrow> Inl e
      | Inr ttype \<Rightarrow>
          (case types_get types ttype of
             Inl e \<Rightarrow> Inl e
           | Inr None \<Rightarrow> Inl UnknownTypeError
           | Inr (Some c) \<Rightarrow>
               if ''panel'' \<in> fst ` set (str_settings r) then Inl TypeError else Inr c))"

text \<open>The loop \<^verbatim>\<open>for setting in data\<close> of \<^verbatim>\<open>create_json_panel\<close>.\<close>

fun add_settings ::
  "registry \<Rightarrow> settings_panel \<Rightarrow> json list \<Rightarrow> world \<Rightarrow> (error + settings_panel) \<times> world" where
  "add_settings types p [] w = (Inr p, w)"
| "add_settings types p (r # rs) w =
     (case setting_class_of types r of
        Inl e \<Rightarrow> (Inl e, w)
      | Inr c \<Rightarrow>
          (case c (info p) (str_settings r) w of
             (Inl e, w1) \<Rightarrow> (Inl e, w1)
           | (Inr inst, w1) \<Rightarrow> add_settings types (p\<lparr>entries := entries p @ [inst]\<rparr>) rs w1))"

text \<open>
  The source of the JSON text: the file when a file name is given, else the string. The
  files are a map from names to contents (\<^verbatim>\<open>open\<close> raises for a missing one), and
  \<^verbatim>\<open>json.loads\<close> is the parameter \<open>loads\<close>.
\<close>

definition read_source ::
  "(string \<Rightarrow> string option) \<Rightarrow> (string \<Rightarrow> error + json) \<Rightarrow> string option \<Rightarrow> string option
     \<Rightarrow> error + json" where
  "read_source fs loads filename data =
     (case filename of
        Some f \<Rightarrow> (case fs f of None \<Rightarrow> Inl IOError | Some txt \<Rightarrow> loads txt)
      | None \<Rightarrow> (case data of None \<Rightarrow> Inl TypeError | Some d \<Rightarrow> loads d))"

text \<open>\<^verbatim>\<open>Settings.create_json_panel\<close>, of the \<^verbatim>\<open>Settings\<close> widget \<open>self\<close> with the registry \<open>types\<close>.\<close>

definition create_json_panel ::
  "registry \<Rightarrow> (string \<Rightarrow> string option) \<Rightarrow> (string \<Rightarrow> error + json) \<Rightarrow> nat \<Rightarrow> string
     \<Rightarrow> config_arg \<Rightarrow> string option \<Rightarrow> string option \<Rightarrow> world
     \<Rightarrow> (error + settings_panel) \<times> world" where
  "create_json_panel types fs loads self ttl cfg filename data w =
     (if filename = None \<and> data = None then (Inl InvalidInputError, w)
      else
        (case read_source fs loads filename data of
           Inl e \<Rightarrow> (Inl e, w)
         | Inr (JArr recs) \<Rightarrow>
             (case SettingsPanel_init ttl (Some self) cfg of
                Inl e \<Rightarrow> (Inl e, w)
              | Inr p \<Rightarrow> add_settings types p recs w)
         | Inr _ \<Rightarrow> (Inl SchemaFormatError, w)))"

section \<open>Construction of a setting\<close>

text \<open>
  \<^verbatim>\<open>SettingItem.__init__\<close>. The call \<^verbatim>\<open>super().__init__(**kwargs)\<close> is the widget constructor
  of \<^verbatim>\<open>kivy.uix\<close>, which assigns the keyword arguments to the properties: it is the
  parameter \<open>winit\<close>. Then \<^verbatim>\<open>self.value = self.panel.get_value(self.section, self.key)\<close>.
\<close>

type_synonym widget_init = "setting_class \<Rightarrow> ctor"

definition SettingItem_init :: "widget_init \<Rightarrow> setting_class \<Rightarrow> ctor" where
  "SettingItem_init winit c p kw w =
     (case winit c p kw w of
        (Inl err, w1) \<Rightarrow> (Inl err, w1)
      | (Inr e, w1) \<Rightarrow>
          (case panel e of
             None \<Rightarrow> (Inl AttributeError, w1)
           | Some p' \<Rightarrow>
               (case get_value p' (sect e) (key e) w1 of
                  (Inl err, w2) \<Rightarrow> (Inl err, w2)
                | (Inr cur, w2) \<Rightarrow>
                    (case assign_value e (case cur of None \<Rightarrow> VNone | Some x \<Rightarrow> VStr x) w2 of
                       (Some err, e', w3) \<Rightarrow> (Inl err, w3)
                     | (None, e', w3) \<Rightarrow> (Inr e', w3)))))"

text \<open>
  The registry after \<^verbatim>\<open>Settings.__init__\<close>. \<^verbatim>\<open>SettingTitle\<close> is a label, not a
  \<^verbatim>\<open>SettingItem\<close>: it reads nothing.
\<close>

definition default_types :: "widget_init \<Rightarrow> registry" where
  "default_types winit =
     register_type (register_type (register_type (register_type (register_type (register_type
       Map.empty
       ''string'' (SettingItem_init winit SettingString))
       ''bool'' (SettingItem_init winit SettingBoolean))
       ''numeric'' (SettingItem_init winit SettingNumeric))
       ''options'' (SettingItem_init winit SettingOptions))
       ''title'' (winit SettingTitle))
       ''path'' (SettingItem_init winit SettingPath)"

text \<open>
  Modelled from the spec: the widget constructor (\<^verbatim>\<open>kivy.uix.widget\<close>, not part of the
  module), for which "remaining keys map 1:1 to entry constructor parameters (title, desc,
  section, key, ...)". The four string properties that the value contract reads are
  assigned from string arguments, in the order of the arguments and after \<^verbatim>\<open>panel\<close>; a
  string property refuses a value of another type; the other keys do not take part.
\<close>

definition new_entry :: "setting_class \<Rightarrow> pinfo \<Rightarrow> entry" where
  "new_entry c p =
     \<lparr>cls = c, title = ''<No title set>'', desc = None, disabled = False, sect = None,
      key = None, val = VNone, panel = Some p, values_pair = [''0'', ''1''], options = []\<rparr>"

definition set_property :: "entry \<Rightarrow> string \<times> json \<Rightarrow> error + entry" where
  "set_property e kv =
     (case kv of
        (k, v) \<Rightarrow>
          if k = ''title'' then
            (case v of JStr s \<Rightarrow> Inr (e\<lparr>title := s\<rparr>) | _ \<Rightarrow> Inl PropertyValueError)
          else if k = ''desc'' then
            (case v of
               JStr s \<Rightarrow> Inr (e\<lparr>desc := Some s\<rparr>)
             | JNull \<Rightarrow> Inr (e\<lparr>desc := None\<rparr>)
             | _ \<Rightarrow> Inl PropertyValueError)
          else if k = ''section'' then
            (case v of JStr s \<Rightarrow> Inr (e\<lparr>sect := Some s\<rparr>) | _ \<Rightarrow> Inl PropertyValueError)
          else if k = ''key'' then
            (case v of JStr s \<Rightarrow> Inr (e\<lparr>key := Some s\<rparr>) | _ \<Rightarrow> Inl PropertyValueError)
          else Inr e)"

fun set_properties :: "entry \<Rightarrow> kwargs \<Rightarrow> error + entry" where
  "set_properties e [] = Inr e"
| "set_properties e (kv # kvs) =
     (case set_property e kv of Inl err \<Rightarrow> Inl err | Inr e' \<Rightarrow> set_properties e' kvs)"

definition apply_kwargs :: widget_init where
  "apply_kwargs c p kw w = (set_properties (new_entry c p) kw, w)"

section \<open>Example objects\<close>

text \<open>
  A store with one section, a world that holds it under the reference \<open>0\<close>, a panel bound
  to that store and to the \<^verbatim>\<open>Settings\<close> widget \<open>1\<close>, and a numeric setting of that panel.
\<close>

definition ex_store :: store where
  "ex_store = [''graphics'' \<mapsto> [''rotation'' \<mapsto> ''3'']]"

definition ex_world :: world where
  "ex_world = \<lparr>stores = (\<lambda>_. ex_store), disk = (\<lambda>_. ex_store), trace = []\<rparr>"

definition ex_panel :: pinfo where
  "ex_panel = \<lparr>config = Some 0, settings = Some 1\<rparr>"

definition ex_entry :: entry where
  "ex_entry = (new_entry SettingNumeric ex_panel)
     \<lparr>sect := Some ''graphics'', key := Some ''rotation'', val := VStr ''3''\<rparr>"




text \<open>The same setting in a panel built without a \<^verbatim>\<open>Settings\<close> widget, and in one without a store.\<close>

definition ex_entry_no_settings :: entry where
  "ex_entry_no_settings = ex_entry\<lparr>panel := Some \<lparr>config = Some 0, settings = None\<rparr>\<rparr>"

definition ex_panel_no_config :: pinfo where
  "ex_panel_no_config = \<lparr>config = None, settings = Some 1\<rparr>"

definition ex_panel_detached :: pinfo where
  "ex_panel_detached = \<lparr>config = None, settings = None\<rparr>"

definition ex_kwargs :: kwargs where
  "ex_kwargs =
     [(''title'', JStr ''Rotation''), (''section'', JStr ''graphics''), (''key'', JStr ''rotation'')]"

text \<open>Schemas, a file system and a \<^verbatim>\<open>json.loads\<close> that knows their texts.\<close>

definition ex_title_record :: json where
  "ex_title_record = JObj [(''type'', JStr ''title''), (''title'', JStr ''Windows'')]"

definition ex_numeric_record :: json where
  "ex_numeric_record = JObj ((''type'', JStr ''numeric'') # ex_kwargs)"

definition ex_color_record :: json where
  "ex_color_record = JObj [(''type'', JStr ''color''), (''title'', JStr ''Tint'')]"

definition ex_untyped_record :: json where
  "ex_untyped_record = JObj [(''title'', JStr ''Tint'')]"

definition ex_fs :: "string \<Rightarrow> string option" where
  "ex_fs = [''settings.json'' \<mapsto> ''[]'']"

definition ex_loads :: "string \<Rightarrow> error + json" where
  "ex_loads s =
     (if s = ''[]'' then Inr (JArr [])
      else if s = ''schema'' then Inr (JArr [ex_title_record, ex_numeric_record])
      else if s = ''bad'' then Inr (JArr [ex_title_record, ex_color_record])
      else if s = ''untyped'' then Inr (JArr [ex_title_record, ex_untyped_record])
      else Inl JSONDecodeError)"

definition ex_empty_panel :: settings_panel where
  "ex_empty_panel = \<lparr>panel_title = ''Panel'', info = ex_panel, entries = []\<rparr>"

text \<open>A \<^verbatim>\<open>ContentNoMenu\<close> before and after its first panel (widget \<open>10\<close>, uid \<open>1\<close>).\<close>

definition nomenu_empty :: content where
  "nomenu_empty = \<lparr>nomenu = True, panels = Map.empty, container = Some [], viewport = [],
     current_panel = None, current_panel_uid = 0\<rparr>"

definition nomenu_one :: content where
  "nomenu_one = \<lparr>nomenu = True, panels = [1 \<mapsto> 10], container = Some [10], viewport = [],
     current_panel = Some 10, current_panel_uid = 1\<rparr>"

section \<open>Records that stop the loader\<close>

definition lacks_type :: "json \<Rightarrow> bool" where
  "lacks_type r = (case r of JObj kvs \<Rightarrow> map_of kvs ''type'' = None | _ \<Rightarrow> False)"

definition has_unregistered_type :: "registry \<Rightarrow> json \<Rightarrow> bool" where
  "has_unregistered_type types r =
     (case r of
        JObj kvs \<Rightarrow>
          (case map_of kvs ''type'' of
             None \<Rightarrow> False
           | Some t \<Rightarrow> (case types_get types t of Inr None \<Rightarrow> True | _ \<Rightarrow> False))
      | _ \<Rightarrow> False)"

section \<open>The value contract between a setting and the store\<close>

lemmas commit_defs =
  on_value_def set_value_def get_value_def set_and_write_def log_def truthy_def
  cfg_get_def cfg_set_def

lemmas ex_defs =
  ex_entry_def ex_world_def ex_panel_def ex_store_def new_entry_def

text \<open>
  Claim C1, as amended. For a setting with a section and a key, in a panel that has a
  store holding a value for them and that has a \<^verbatim>\<open>Settings\<close> widget: the handler of a new
  value whose \<^verbatim>\<open>str\<close> differs from the stored value reads the store, then calls
  \<^verbatim>\<open>set(section, key, value)\<close> once, then \<^verbatim>\<open>write()\<close> once, then dispatches
  \<^verbatim>\<open>on_config_change\<close> once with the store, the section, the key and the string, in that
  order; the store and its flushed copy hold the string afterwards.
\<close>

theorem commit_new_value_writes_once:
  assumes "sect e = Some s" "s \<noteq> []" "key e = Some k" "k \<noteq> []" "panel e = Some p"
    and "config p = Some c" "settings p = Some st"
    and "stores w c s = Some m" "m k = Some cur" "coerce v \<noteq> cur"
  shows "on_value e v w =
     (None,
      w\<lparr>stores := (stores w)(c := (stores w c)(s \<mapsto> m(k \<mapsto> coerce v))),
        disk := (disk w)(c := (stores w c)(s \<mapsto> m(k \<mapsto> coerce v))),
        trace := trace w @
          [Get c (Some s) (Some k), Set c (Some s) (Some k) (coerce v), Write c,
           ConfigChange st (Some c) (Some s) (Some k) (coerce v)]\<rparr>)"
  using assms by (simp add: commit_defs)

theorem commit_new_value_writes_once_witness:
  "on_value ex_entry (VStr ''5'') ex_world =
     (None,
      ex_world\<lparr>stores := (stores ex_world)(0 := ex_store(''graphics'' \<mapsto> [''rotation'' \<mapsto> ''5''])),
        disk := (disk ex_world)(0 := ex_store(''graphics'' \<mapsto> [''rotation'' \<mapsto> ''5''])),
        trace :=
          [Get 0 (Some ''graphics'') (Some ''rotation''),
           Set 0 (Some ''graphics'') (Some ''rotation'') ''5'', Write 0,
           ConfigChange 1 (Some 0) (Some ''graphics'') (Some ''rotation'') ''5'']\<rparr>)"
  using commit_new_value_writes_once [of ex_entry "''graphics''" "''rotation''" ex_panel 0 1
      ex_world "[''rotation'' \<mapsto> ''3'']" "''3''" "VStr ''5''"]
  by (simp add: ex_defs coerce_def)

text \<open>
  The claim as written fails for a panel built without a \<^verbatim>\<open>Settings\<close> widget: the stored
  value is \<^verbatim>\<open>3\<close>, the new one is \<^verbatim>\<open>5\<close>, the store is set and flushed, and nothing is
  dispatched.
\<close>

theorem commit_new_value_without_settings:
  "stores ex_world 0 ''graphics'' = Some [''rotation'' \<mapsto> ''3''] \<and>
   coerce (VStr ''5'') \<noteq> ''3'' \<and>
   trace (snd (on_value ex_entry_no_settings (VStr ''5'') ex_world)) =
     [Get 0 (Some ''graphics'') (Some ''rotation''),
      Set 0 (Some ''graphics'') (Some ''rotation'') ''5'', Write 0]"
  by (simp add: ex_entry_no_settings_def ex_defs coerce_def commit_defs)

text \<open>
  Claim C2. For a setting with a section and a key whose panel has a store: a value whose
  \<^verbatim>\<open>str\<close> equals the stored value causes one read and nothing else, neither \<^verbatim>\<open>set\<close> nor
  \<^verbatim>\<open>write\<close> nor a notification, whether the handler is called directly or through an
  assignment to the property.
\<close>

theorem commit_same_value_no_write:
  assumes "sect e = Some s" "s \<noteq> []" "key e = Some k" "k \<noteq> []" "panel e = Some p"
    and "config p = Some c" "stores w c s = Some m" "m k = Some (coerce v)"
  shows "on_value e v w = (None, w\<lparr>trace := trace w @ [Get c (Some s) (Some k)]\<rparr>) \<and>
     assign_value e v w =
       (if val e = v then (None, e, w)
        else (None, e\<lparr>val := v\<rparr>, w\<lparr>trace := trace w @ [Get c (Some s) (Some k)]\<rparr>))"
  using assms by (simp add: assign_value_def commit_defs)

theorem commit_same_value_no_write_witness:
  "on_value ex_entry (VInt 3) ex_world =
     (None, ex_world\<lparr>trace := [Get 0 (Some ''graphics'') (Some ''rotation'')]\<rparr>) \<and>
   assign_value ex_entry (VInt 3) ex_world =
     (None, ex_entry\<lparr>val := VInt 3\<rparr>,
      ex_world\<lparr>trace := [Get 0 (Some ''graphics'') (Some ''rotation'')]\<rparr>)"
proof -
  have c: "coerce (VInt 3) = ''3''"
    by (simp add: coerce_def str_int_def str_nat.simps)
  show ?thesis
    using commit_same_value_no_write [of ex_entry "''graphics''" "''rotation''" ex_panel 0
        ex_world "[''rotation'' \<mapsto> ''3'']" "VInt 3"]
    by (simp add: ex_defs c)
qed

text \<open>
  Claim C10, as amended. In a panel without a store that has a \<^verbatim>\<open>Settings\<close> widget,
  \<^verbatim>\<open>set_value\<close> reads nothing, sets nothing and flushes nothing, and dispatches
  \<^verbatim>\<open>on_config_change\<close> with \<^verbatim>\<open>None\<close> for the store and with the new value; so does the
  handler of a setting of such a panel.
\<close>

theorem set_value_without_config:
  assumes "config p = None" "settings p = Some st"
  shows "set_value p sec k v w =
       (None, w\<lparr>trace := trace w @ [ConfigChange st None sec k v]\<rparr>) \<and>
     (sect e = Some s \<and> s \<noteq> [] \<and> key e = Some k' \<and> k' \<noteq> [] \<and> panel e = Some p \<longrightarrow>
      on_value e x w =
        (None, w\<lparr>trace := trace w @ [ConfigChange st None (Some s) (Some k') (coerce x)]\<rparr>))"
  using assms by (simp add: commit_defs)

theorem set_value_without_config_witness:
  "set_value ex_panel_no_config (Some ''graphics'') (Some ''rotation'') ''5'' ex_world =
     (None, ex_world\<lparr>trace :=
        [ConfigChange 1 None (Some ''graphics'') (Some ''rotation'') ''5'']\<rparr>) \<and>
   on_value (ex_entry\<lparr>panel := Some ex_panel_no_config\<rparr>) (VStr ''5'') ex_world =
     (None, ex_world\<lparr>trace :=
        [ConfigChange 1 None (Some ''graphics'') (Some ''rotation'') ''5'']\<rparr>)"
  using set_value_without_config [where p = ex_panel_no_config and st = 1
      and e = "ex_entry\<lparr>panel := Some ex_panel_no_config\<rparr>" and s = "''graphics''"
      and k' = "''rotation''" and sec = "Some ''graphics''" and k = "Some ''rotation''"
      and v = "''5''" and w = ex_world and x = "VStr ''5''"]
  by (simp add: ex_panel_no_config_def ex_defs coerce_def)

text \<open>
  The claim as written fails for a panel that has neither a store nor a \<^verbatim>\<open>Settings\<close>
  widget: the call does nothing at all, and no notification is dispatched.
\<close>

theorem set_value_without_config_or_settings:
  "set_value ex_panel_detached (Some ''graphics'') (Some ''rotation'') ''5'' ex_world =
     (None, ex_world) \<and>
   trace (snd (set_value ex_panel_detached (Some ''graphics'') (Some ''rotation'') ''5''
     ex_world)) = []"
  by (simp add: ex_panel_detached_def ex_world_def set_value_def get_value_def)

section \<open>Construction of a setting from the store\<close>

text \<open>
  Claim C7, as amended. For a setting with a section and a key, whose constructor
  arguments leave \<^verbatim>\<open>value\<close> at its default and whose panel has a store holding a value for
  them: the construction reads the store twice, once in \<^verbatim>\<open>__init__\<close> and once in the
  handler that the assignment of the value runs, it sets, flushes and dispatches nothing,
  and the value of the setting is the stored value.
\<close>

theorem setting_init_reads_twice:
  assumes "winit c p kw w = (Inr e0, w0)" "val e0 = VNone" "panel e0 = Some p'"
    and "config p' = Some cf" "sect e0 = Some s" "s \<noteq> []" "key e0 = Some k" "k \<noteq> []"
    and "stores w0 cf s = Some m" "m k = Some x"
  shows "SettingItem_init winit c p kw w =
     (Inr (e0\<lparr>val := VStr x\<rparr>),
      w0\<lparr>trace := trace w0 @ [Get cf (Some s) (Some k), Get cf (Some s) (Some k)]\<rparr>)"
  using assms by (simp add: SettingItem_init_def assign_value_def coerce_def commit_defs)

theorem setting_init_reads_twice_witness:
  "SettingItem_init apply_kwargs SettingNumeric ex_panel ex_kwargs ex_world =
     (Inr ((new_entry SettingNumeric ex_panel)
        \<lparr>title := ''Rotation'', sect := Some ''graphics'', key := Some ''rotation'',
         val := VStr ''3''\<rparr>),
      ex_world\<lparr>trace :=
        [Get 0 (Some ''graphics'') (Some ''rotation''),
         Get 0 (Some ''graphics'') (Some ''rotation'')]\<rparr>)"
  using setting_init_reads_twice [of apply_kwargs SettingNumeric ex_panel ex_kwargs ex_world
      "(new_entry SettingNumeric ex_panel)
         \<lparr>title := ''Rotation'', sect := Some ''graphics'', key := Some ''rotation''\<rparr>"
      ex_world ex_panel 0 "''graphics''" "''rotation''" "[''rotation'' \<mapsto> ''3'']" "''3''"]
  by (simp add: apply_kwargs_def ex_kwargs_def set_property_def ex_defs)

text \<open>
  The claim as written fails: the construction of the example setting makes two reads,
  not one.
\<close>

theorem setting_init_two_reads_example:
  "trace (snd (SettingItem_init apply_kwargs SettingNumeric ex_panel ex_kwargs ex_world)) =
     [Get 0 (Some ''graphics'') (Some ''rotation''),
      Get 0 (Some ''graphics'') (Some ''rotation'')]"
  by (simp add: SettingItem_init_def assign_value_def coerce_def commit_defs
      apply_kwargs_def ex_kwargs_def set_property_def ex_defs)

section \<open>Numeric settings\<close>






section \<open>Navigation between panels\<close>

text \<open>
  Claim C9. In every state of a content panel, a switch to a uid that is not in the
  mapping of panels returns \<^verbatim>\<open>False\<close> without an exception and leaves the state, with
  the visible panel and the selected uid, as it was.
\<close>

theorem switch_to_unknown_uid:
  "panels c uid = None \<Longrightarrow> switch_to_panel c uid = (Inr False, c)"
  by (simp add: switch_to_panel_def)

theorem switch_to_unknown_uid_witness:
  "switch_to_panel nomenu_one 7 = (Inr False, nomenu_one) \<and>
   current_panel (snd (switch_to_panel nomenu_one 7)) = Some 10 \<and>
   current_panel_uid (snd (switch_to_panel nomenu_one 7)) = 1"
  using switch_to_unknown_uid [of nomenu_one 7]
  by (simp add: nomenu_one_def)

text \<open>
  Claim C6, evaluated on the code. A \<^verbatim>\<open>ContentNoMenu\<close> that shows its first panel accepts
  a second one through \<^verbatim>\<open>add_panel\<close>: no exception is raised, the panel is registered
  under its uid, and the first panel stays the visible one. The exception of the claim is
  raised by \<^verbatim>\<open>add_widget\<close> alone, which \<^verbatim>\<open>add_panel\<close> does not reach once a panel is
  selected.
\<close>

theorem nomenu_second_panel_accepted:
  "add_panel nomenu_empty 10 ''first'' 1 = (None, nomenu_one) \<and>
   add_panel nomenu_one 20 ''second'' 2 = (None, nomenu_one\<lparr>panels := [1 \<mapsto> 10, 2 \<mapsto> 20]\<rparr>) \<and>
   add_widget nomenu_one 20 = (Some CapacityError, nomenu_one)"
  by (simp add: add_panel_def nomenu_empty_def nomenu_one_def switch_to_panel_def
      add_widget_def ContentPanel_add_widget_def widget_add_def Let_def)

section \<open>Loading a panel from a schema\<close>

lemma add_settings_append:
  "add_settings types p pre w = (Inr p1, w1) \<Longrightarrow>
   add_settings types p (pre @ rs) w = add_settings types p1 rs w1"
proof (induction pre arbitrary: p w)
  case Nil
  then show ?case by simp
next
  case (Cons r pre)
  then show ?case
    by (auto split: sum.splits prod.splits)
qed

lemma add_settings_fails:
  "r \<in> set recs \<Longrightarrow> setting_class_of types r = Inl e \<Longrightarrow>
   \<exists>e' w'. add_settings types p recs w = (Inl e', w')"
proof (induction recs arbitrary: p w)
  case Nil
  then show ?case by simp
next
  case (Cons a recs)
  show ?case
  proof (cases "setting_class_of types a")
    case (Inl e1)
    then show ?thesis by simp
  next
    case (Inr c)
    with Cons.prems have r: "r \<in> set recs" by auto
    obtain res w1 where c: "c (info p) (str_settings a) w = (res, w1)"
      by (cases "c (info p) (str_settings a) w") auto
    show ?thesis
    proof (cases res)
      case (Inl e1)
      with Inr c show ?thesis by simp
    next
      case (Inr inst)
      with \<open>setting_class_of types a = Inr c\<close> c
        Cons.IH [OF r Cons.prems(2), of "p\<lparr>entries := entries p @ [inst]\<rparr>" w1]
      show ?thesis by simp
    qed
  qed
qed

text \<open>
  A successful run of the loop keeps the panel's title, store and \<^verbatim>\<open>Settings\<close> widget and
  appends one widget per record, in order: the \<open>i\<close>-th new widget is what the class of the
  \<open>i\<close>-th record returns for the keyword arguments of that record, in the world that the
  calls before it have left.
\<close>

lemma add_settings_spec:
  "add_settings types p recs w = (Inr p', w') \<Longrightarrow>
   info p' = info p \<and> panel_title p' = panel_title p \<and>
   (\<exists>new ws. entries p' = entries p @ new \<and> length new = length recs \<and>
      length ws = Suc (length recs) \<and> ws ! 0 = w \<and> ws ! length recs = w' \<and>
      (\<forall>i<length recs. \<exists>c. setting_class_of types (recs ! i) = Inr c \<and>
          c (info p) (str_settings (recs ! i)) (ws ! i) = (Inr (new ! i), ws ! Suc i)))"
proof (induction recs arbitrary: p w)
  case Nil
  then show ?case by (auto intro: exI [of _ "[w]"])
next
  case (Cons r recs)
  from Cons.prems obtain c inst w1 where
    c: "setting_class_of types r = Inr c" and
    i: "c (info p) (str_settings r) w = (Inr inst, w1)" and
    rest: "add_settings types (p\<lparr>entries := entries p @ [inst]\<rparr>) recs w1 = (Inr p', w')"
    by (auto split: sum.splits prod.splits)
  from Cons.IH [OF rest] obtain new ws where
    h: "info p' = info p" "panel_title p' = panel_title p"
      "entries p' = entries p @ [inst] @ new" "length new = length recs"
      "length ws = Suc (length recs)" "ws ! 0 = w1" "ws ! length recs = w'"
      "\<forall>i<length recs. \<exists>c. setting_class_of types (recs ! i) = Inr c \<and>
          c (info p) (str_settings (recs ! i)) (ws ! i) = (Inr (new ! i), ws ! Suc i)"
    by auto
  have "\<forall>i<length (r # recs). \<exists>c. setting_class_of types ((r # recs) ! i) = Inr c \<and>
          c (info p) (str_settings ((r # recs) ! i)) ((w # ws) ! i) =
            (Inr ((inst # new) ! i), (w # ws) ! Suc i)"
  proof (intro allI impI)
    fix i assume "i < length (r # recs)"
    then show "\<exists>c. setting_class_of types ((r # recs) ! i) = Inr c \<and>
          c (info p) (str_settings ((r # recs) ! i)) ((w # ws) ! i) =
            (Inr ((inst # new) ! i), (w # ws) ! Suc i)"
      using c i h(6) h(8) by (cases i) auto
  qed
  with h show ?case
    by (intro conjI exI [of _ "inst # new"] exI [of _ "w # ws"]) auto
qed

lemma lacks_type_error: "lacks_type r \<Longrightarrow> setting_class_of types r = Inl SchemaFormatError"
  by (auto simp: lacks_type_def setting_class_of_def split: json.splits)

lemma unregistered_type_error:
  "has_unregistered_type types r \<Longrightarrow> setting_class_of types r = Inl UnknownTypeError"
  by (auto simp: has_unregistered_type_def setting_class_of_def
      split: json.splits option.splits sum.splits)

lemmas loader_ex_defs =
  create_json_panel_def read_source_def ex_loads_def SettingsPanel_init_def
  ex_title_record_def ex_numeric_record_def ex_color_record_def ex_untyped_record_def

lemma default_types_simps:
  "default_types winit ''title'' = Some (winit SettingTitle)"
  "default_types winit ''numeric'' = Some (SettingItem_init winit SettingNumeric)"
  "default_types winit ''color'' = None"
  by (simp_all add: default_types_def register_type_def)

lemma ex_class_simps:
  "setting_class_of (default_types winit) ex_title_record = Inr (winit SettingTitle)"
  "setting_class_of (default_types winit) ex_numeric_record =
     Inr (SettingItem_init winit SettingNumeric)"
  "str_settings ex_title_record = [(''title'', JStr ''Windows'')]"
  "str_settings ex_numeric_record = ex_kwargs"
  by (simp_all add: setting_class_of_def str_settings_def default_types_simps
      ex_title_record_def ex_numeric_record_def ex_kwargs_def)

lemma ex_title_entry:
  "apply_kwargs SettingTitle p [(''title'', JStr ''Windows'')] w =
     (Inr ((new_entry SettingTitle p)\<lparr>title := ''Windows''\<rparr>), w)"
  by (simp add: apply_kwargs_def set_property_def)

lemma ex_numeric_entry:
  "SettingItem_init apply_kwargs SettingNumeric ex_panel ex_kwargs ex_world =
     (Inr ((new_entry SettingNumeric ex_panel)
        \<lparr>title := ''Rotation'', sect := Some ''graphics'', key := Some ''rotation'',
         val := VStr ''3''\<rparr>),
      ex_world\<lparr>trace :=
        [Get 0 (Some ''graphics'') (Some ''rotation''),
         Get 0 (Some ''graphics'') (Some ''rotation'')]\<rparr>)"
  by (simp add: SettingItem_init_def assign_value_def coerce_def commit_defs
      apply_kwargs_def ex_kwargs_def set_property_def ex_defs)

lemma ex_schema_loads:
  "create_json_panel (default_types apply_kwargs) ex_fs ex_loads 1 ''Panel'' (KivyConfig 0)
     None (Some ''schema'') ex_world =
   (Inr \<lparr>panel_title = ''Panel'', info = ex_panel,
      entries =
        [(new_entry SettingTitle ex_panel)\<lparr>title := ''Windows''\<rparr>,
         (new_entry SettingNumeric ex_panel)
           \<lparr>title := ''Rotation'', sect := Some ''graphics'', key := Some ''rotation'',
            val := VStr ''3''\<rparr>]\<rparr>,
    ex_world\<lparr>trace :=
      [Get 0 (Some ''graphics'') (Some ''rotation''),
       Get 0 (Some ''graphics'') (Some ''rotation'')]\<rparr>)"
proof -
  have p: "\<lparr>config = Some 0, settings = Some (Suc 0)\<rparr> = ex_panel"
    by (simp add: ex_panel_def)
  show ?thesis
    by (simp add: create_json_panel_def read_source_def ex_loads_def SettingsPanel_init_def
        ex_class_simps p ex_title_entry ex_numeric_entry)
qed

text \<open>
  Claim C3. When the loader returns a panel, the source parsed to a list of records, the
  panel has one entry per record, and the entry at each index is the widget that the class
  registered for the record at that index returned for that record's keyword arguments,
  the calls being made in the order of the records.
\<close>

theorem panel_entries_follow_schema:
  assumes "create_json_panel types fs loads self ttl cfg filename data w = (Inr p, w')"
  shows "\<exists>recs ws. read_source fs loads filename data = Inr (JArr recs) \<and>
     length (entries p) = length recs \<and>
     length ws = Suc (length recs) \<and> ws ! 0 = w \<and> ws ! length recs = w' \<and>
     (\<forall>i<length recs. \<exists>c. setting_class_of types (recs ! i) = Inr c \<and>
        c (info p) (str_settings (recs ! i)) (ws ! i) = (Inr (entries p ! i), ws ! Suc i))"
proof -
  from assms obtain recs p0 where
    src: "read_source fs loads filename data = Inr (JArr recs)" and
    p0: "SettingsPanel_init ttl (Some self) cfg = Inr p0" and
    run: "add_settings types p0 recs w = (Inr p, w')"
    by (auto simp: create_json_panel_def split: if_splits sum.splits json.splits)
  from p0 have "entries p0 = []"
    by (auto simp: SettingsPanel_init_def split: config_arg.splits)
  with add_settings_spec [OF run] src show ?thesis
    by auto
qed

theorem panel_entries_follow_schema_witness:
  "\<exists>p w'. create_json_panel (default_types apply_kwargs) ex_fs ex_loads 1 ''Panel''
       (KivyConfig 0) None (Some ''schema'') ex_world = (Inr p, w') \<and>
     map title (entries p) = [''Windows'', ''Rotation''] \<and>
     length (entries p) = 2 \<and>
     apply_kwargs SettingTitle (info p) (str_settings ex_title_record) ex_world =
       (Inr (entries p ! 0), ex_world)"
proof -
  let ?load = "create_json_panel (default_types apply_kwargs) ex_fs ex_loads 1 ''Panel''
       (KivyConfig 0) None (Some ''schema'') ex_world"
  obtain p w' where run: "?load = (Inr p, w')" and
    titles: "map title (entries p) = [''Windows'', ''Rotation'']"
    using ex_schema_loads by (simp add: new_entry_def)
  from panel_entries_follow_schema [OF run] obtain recs ws where
    src: "read_source ex_fs ex_loads None (Some ''schema'') = Inr (JArr recs)" and
    len: "length (entries p) = length recs" and
    w0: "ws ! 0 = ex_world" and
    each: "\<forall>i<length recs. \<exists>c. setting_class_of (default_types apply_kwargs) (recs ! i) = Inr c \<and>
        c (info p) (str_settings (recs ! i)) (ws ! i) = (Inr (entries p ! i), ws ! Suc i)"
    by blast
  from src have recs: "recs = [ex_title_record, ex_numeric_record]"
    by (simp add: read_source_def ex_loads_def)
  with len have l2: "length (entries p) = 2" by simp
  from each recs have "\<exists>c. setting_class_of (default_types apply_kwargs) ex_title_record = Inr c \<and>
        c (info p) (str_settings ex_title_record) (ws ! 0) = (Inr (entries p ! 0), ws ! Suc 0)"
    by (auto dest: spec [of _ 0])
  then obtain w1 where "apply_kwargs SettingTitle (info p) (str_settings ex_title_record) ex_world =
       (Inr (entries p ! 0), w1)"
    using w0 by (auto simp: ex_class_simps(1))
  then have first: "apply_kwargs SettingTitle (info p) (str_settings ex_title_record) ex_world =
       (Inr (entries p ! 0), ex_world)"
    by (simp add: apply_kwargs_def)
  show ?thesis
    by (rule exI [of _ p], rule exI [of _ w']) (simp only: run titles l2 first simp_thms)
qed

text \<open>
  Claim C4. If a record of the schema has no \<^verbatim>\<open>type\<close> key, or has a type for which no class
  is registered, the loader returns an error and no panel, whatever the records before it
  have built. When the panel is created and the records before it are built without an
  error, the loader fails with the error of that record: the schema format error for the
  missing key, the unknown type error for the unregistered type; the records after it are
  not looked at, and what was built is not returned.
\<close>

theorem load_fails_fast:
  "(read_source fs loads filename data = Inr (JArr recs) \<longrightarrow> r \<in> set recs \<longrightarrow>
      lacks_type r \<or> has_unregistered_type types r \<longrightarrow>
      (\<exists>e w'. create_json_panel types fs loads self ttl cfg filename data w = (Inl e, w'))) \<and>
   (read_source fs loads filename data = Inr (JArr (pre @ r # post)) \<longrightarrow>
      SettingsPanel_init ttl (Some self) cfg = Inr p \<longrightarrow>
      add_settings types p pre w = (Inr p1, w1) \<longrightarrow> lacks_type r \<longrightarrow>
      create_json_panel types fs loads self ttl cfg filename data w =
        (Inl SchemaFormatError, w1)) \<and>
   (read_source fs loads filename data = Inr (JArr (pre @ r # post)) \<longrightarrow>
      SettingsPanel_init ttl (Some self) cfg = Inr p \<longrightarrow>
      add_settings types p pre w = (Inr p1, w1) \<longrightarrow> has_unregistered_type types r \<longrightarrow>
      create_json_panel types fs loads self ttl cfg filename data w =
        (Inl UnknownTypeError, w1)) \<and>
   (add_settings types p pre w = (Inr p1, w1) \<longrightarrow> lacks_type r \<longrightarrow>
      add_settings types p (pre @ r # post) w = (Inl SchemaFormatError, w1)) \<and>
   (add_settings types p pre w = (Inr p1, w1) \<longrightarrow> has_unregistered_type types r \<longrightarrow>
      add_settings types p (pre @ r # post) w = (Inl UnknownTypeError, w1))"
proof (intro conjI impI)
  assume src: "read_source fs loads filename data = Inr (JArr recs)" and r: "r \<in> set recs"
    and bad: "lacks_type r \<or> has_unregistered_type types r"
  from bad obtain e where e: "setting_class_of types r = Inl e"
    using lacks_type_error unregistered_type_error by blast
  from src have given: "\<not> (filename = None \<and> data = None)"
    by (auto simp: read_source_def split: option.splits)
  show "\<exists>e w'. create_json_panel types fs loads self ttl cfg filename data w = (Inl e, w')"
  proof (cases "SettingsPanel_init ttl (Some self) cfg")
    case (Inl e0)
    with src given show ?thesis by (simp add: create_json_panel_def)
  next
    case (Inr p0)
    with src given add_settings_fails [OF r e, of p0 w] show ?thesis
      by (simp add: create_json_panel_def)
  qed
next
  assume src: "read_source fs loads filename data = Inr (JArr (pre @ r # post))"
    and p: "SettingsPanel_init ttl (Some self) cfg = Inr p"
    and pre: "add_settings types p pre w = (Inr p1, w1)" and bad: "lacks_type r"
  from src have given: "\<not> (filename = None \<and> data = None)"
    by (auto simp: read_source_def split: option.splits)
  from pre bad have "add_settings types p (pre @ r # post) w = (Inl SchemaFormatError, w1)"
    by (simp add: add_settings_append lacks_type_error)
  with src p given
  show "create_json_panel types fs loads self ttl cfg filename data w =
      (Inl SchemaFormatError, w1)"
    by (simp add: create_json_panel_def)
next
  assume src: "read_source fs loads filename data = Inr (JArr (pre @ r # post))"
    and p: "SettingsPanel_init ttl (Some self) cfg = Inr p"
    and pre: "add_settings types p pre w = (Inr p1, w1)"
    and bad: "has_unregistered_type types r"
  from src have given: "\<not> (filename = None \<and> data = None)"
    by (auto simp: read_source_def split: option.splits)
  from pre bad have "add_settings types p (pre @ r # post) w = (Inl UnknownTypeError, w1)"
    by (simp add: add_settings_append unregistered_type_error)
  with src p given
  show "create_json_panel types fs loads self ttl cfg filename data w =
      (Inl UnknownTypeError, w1)"
    by (simp add: create_json_panel_def)
next
  assume "add_settings types p pre w = (Inr p1, w1)" "lacks_type r"
  then show "add_settings types p (pre @ r # post) w = (Inl SchemaFormatError, w1)"
    by (simp add: add_settings_append lacks_type_error)
next
  assume "add_settings types p pre w = (Inr p1, w1)" "has_unregistered_type types r"
  then show "add_settings types p (pre @ r # post) w = (Inl UnknownTypeError, w1)"
    by (simp add: add_settings_append unregistered_type_error)
qed

theorem load_fails_fast_witness:
  "create_json_panel (default_types apply_kwargs) ex_fs ex_loads 1 ''Panel''
       (KivyConfig 0) None (Some ''bad'') ex_world = (Inl UnknownTypeError, ex_world) \<and>
   create_json_panel (default_types apply_kwargs) ex_fs ex_loads 1 ''Panel''
       (KivyConfig 0) None (Some ''untyped'') ex_world = (Inl SchemaFormatError, ex_world) \<and>
   add_settings (default_types apply_kwargs) ex_empty_panel
       [ex_title_record, ex_color_record, ex_numeric_record] ex_world =
     (Inl UnknownTypeError, ex_world) \<and>
   add_settings (default_types apply_kwargs) ex_empty_panel
       [ex_title_record, ex_untyped_record, ex_numeric_record] ex_world =
     (Inl SchemaFormatError, ex_world)"
proof -
  have bad: "read_source ex_fs ex_loads None (Some ''bad'') =
      Inr (JArr ([ex_title_record] @ ex_color_record # []))"
    by (simp add: read_source_def ex_loads_def)
  have untyped: "read_source ex_fs ex_loads None (Some ''untyped'') =
      Inr (JArr ([ex_title_record] @ ex_untyped_record # []))"
    by (simp add: read_source_def ex_loads_def)
  have panel: "SettingsPanel_init ''Panel'' (Some 1) (KivyConfig 0) = Inr ex_empty_panel"
    by (simp add: SettingsPanel_init_def ex_empty_panel_def ex_panel_def)
  have no_class: "has_unregistered_type (default_types apply_kwargs) ex_color_record"
    by (simp add: has_unregistered_type_def ex_color_record_def default_types_simps)
  have no_type: "lacks_type ex_untyped_record"
    by (simp add: lacks_type_def ex_untyped_record_def)
  have pre: "add_settings (default_types apply_kwargs) ex_empty_panel [ex_title_record] ex_world =
      (Inr (ex_empty_panel\<lparr>entries := [(new_entry SettingTitle ex_panel)\<lparr>title := ''Windows''\<rparr>]\<rparr>),
       ex_world)"
    by (simp add: ex_class_simps ex_title_entry ex_empty_panel_def)
  show ?thesis
    using load_fails_fast [where fs = ex_fs and loads = ex_loads and filename = None
        and data = "Some ''bad''" and r = ex_color_record
        and types = "default_types apply_kwargs" and self = 1
        and ttl = "''Panel''" and cfg = "KivyConfig 0" and w = ex_world
        and p = ex_empty_panel and pre = "[ex_title_record]" and post = "[]"]
      load_fails_fast [where fs = ex_fs and loads = ex_loads and filename = None
        and data = "Some ''untyped''" and r = ex_untyped_record
        and types = "default_types apply_kwargs" and self = 1
        and ttl = "''Panel''" and cfg = "KivyConfig 0" and w = ex_world
        and p = ex_empty_panel and pre = "[ex_title_record]" and post = "[]"]
      load_fails_fast [where r = ex_color_record and types = "default_types apply_kwargs"
        and w = ex_world and p = ex_empty_panel and pre = "[ex_title_record]"
        and post = "[ex_numeric_record]"]
      load_fails_fast [where r = ex_untyped_record and types = "default_types apply_kwargs"
        and w = ex_world and p = ex_empty_panel and pre = "[ex_title_record]"
        and post = "[ex_numeric_record]"]
      bad untyped panel no_class no_type pre
    by simp
qed

text \<open>
  Claim C8, as amended. The loader raises the invalid input error when neither a file
  name nor a string is given. When both are given it reads the file and ignores the
  string: the result is that of the call with the file name alone.
\<close>

theorem loader_sources:
  "create_json_panel types fs loads self ttl cfg None None w = (Inl InvalidInputError, w) \<and>
   create_json_panel types fs loads self ttl cfg (Some f) (Some d) w =
     create_json_panel types fs loads self ttl cfg (Some f) None w"
  by (simp add: create_json_panel_def read_source_def)

theorem loader_sources_witness:
  "create_json_panel (default_types apply_kwargs) ex_fs ex_loads 1 ''Panel'' (KivyConfig 0)
     None None ex_world = (Inl InvalidInputError, ex_world) \<and>
   create_json_panel (default_types apply_kwargs) ex_fs ex_loads 1 ''Panel'' (KivyConfig 0)
     (Some ''settings.json'') (Some ''schema'') ex_world =
   create_json_panel (default_types apply_kwargs) ex_fs ex_loads 1 ''Panel'' (KivyConfig 0)
     (Some ''settings.json'') None ex_world"
  using loader_sources [of "default_types apply_kwargs" ex_fs ex_loads 1 "''Panel''"
      "KivyConfig 0" ex_world "''settings.json''" "''schema''"]
  by simp

text \<open>
  The claim as written fails when both are given: the file holds the empty list and the
  string a schema of two records; the loader returns the empty panel of the file.
\<close>

theorem loader_both_sources_example:
  "create_json_panel (default_types apply_kwargs) ex_fs ex_loads 1 ''Panel'' (KivyConfig 0)
     (Some ''settings.json'') (Some ''schema'') ex_world =
   (Inr \<lparr>panel_title = ''Panel'', info = \<lparr>config = Some 0, settings = Some 1\<rparr>, entries = []\<rparr>,
    ex_world)"
  by (simp add: create_json_panel_def read_source_def ex_fs_def ex_loads_def
      SettingsPanel_init_def)

end
